theory Spec2Isabelle
  imports Complex_Main "HOL-Library.Char_ord" "HOL-Library.List_Lexorder"
begin

section \<open>JavaScript values, numbers and strings\<close>

text \<open>
  The server code (\<^verbatim>\<open>routes.ts\<close> in its successive versions) works on loosely typed cell
  values. A cell is a \<^verbatim>\<open>jsval\<close>. Numbers are modelled as exact reals: the rounding of IEEE
  doubles is not part of the model, and \<^verbatim>\<open>NaN\<close> (which only \<^verbatim>\<open>parseFloat\<close> produces here) is
  the value \<open>None\<close> of an option. Strings are Isabelle strings, read as ASCII text: white
  space is the ASCII white space of \<^verbatim>\<open>trim\<close> and \<^verbatim>\<open>\s\<close>, and case conversion acts on the
  ASCII letters.
\<close>

datatype jsval = JUndefined | JNull | JBool bool | JNum real | JStr string

definition truthy :: "jsval \<Rightarrow> bool" where
  "truthy v =
     (case v of
        JUndefined \<Rightarrow> False
      | JNull \<Rightarrow> False
      | JBool b \<Rightarrow> b
      | JNum x \<Rightarrow> x \<noteq> 0
      | JStr s \<Rightarrow> s \<noteq> [])"

definition is_digit :: "char \<Rightarrow> bool" where
  "is_digit c = (48 \<le> (of_char c :: nat) \<and> (of_char c :: nat) \<le> 57)"

definition is_space :: "char \<Rightarrow> bool" where
  "is_space c = ((9 \<le> (of_char c :: nat) \<and> (of_char c :: nat) \<le> 13) \<or> (of_char c :: nat) = 32)"

definition is_upper :: "char \<Rightarrow> bool" where
  "is_upper c = (65 \<le> (of_char c :: nat) \<and> (of_char c :: nat) \<le> 90)"

definition is_lower :: "char \<Rightarrow> bool" where
  "is_lower c = (97 \<le> (of_char c :: nat) \<and> (of_char c :: nat) \<le> 122)"

definition upper_char :: "char \<Rightarrow> char" where
  "upper_char c = (if is_lower c then char_of ((of_char c :: nat) - 32) else c)"

definition lower_char :: "char \<Rightarrow> char" where
  "lower_char c = (if is_upper c then char_of ((of_char c :: nat) + 32) else c)"

definition toUpperCase :: "string \<Rightarrow> string" where
  "toUpperCase s = map upper_char s"

definition toLowerCase :: "string \<Rightarrow> string" where
  "toLowerCase s = map lower_char s"

definition trim :: "string \<Rightarrow> string" where
  "trim s = rev (dropWhile is_space (rev (dropWhile is_space s)))"

text \<open>\<^verbatim>\<open>parseInt(s, 10)\<close> on a string of decimal digits (the capture groups of the time patterns).\<close>

definition digit_val :: "char \<Rightarrow> nat" where
  "digit_val c = (of_char c :: nat) - 48"

definition parseInt :: "string \<Rightarrow> nat" where
  "parseInt ds = foldl (\<lambda>acc c. 10 * acc + digit_val c) 0 ds"

text \<open>
  \<^verbatim>\<open>parseFloat\<close>: the longest prefix that is a decimal literal (sign, digits, fraction,
  exponent) after leading white space; \<open>None\<close> is \<^verbatim>\<open>NaN\<close>. The literal \<^verbatim>\<open>Infinity\<close> is left
  out: neither caller can pass it (one upper-cases its argument, the other keeps only digits,
  dots and minus signs).
\<close>

definition parse_exponent :: "string \<Rightarrow> int" where
  "parse_exponent r =
     (case r of
        [] \<Rightarrow> 0
      | e # r1 \<Rightarrow>
          if e = CHR ''e'' \<or> e = CHR ''E'' then
            (case r1 of
               [] \<Rightarrow> 0
             | s # r2 \<Rightarrow>
                 if s = CHR ''-'' then
                   (if takeWhile is_digit r2 = [] then 0 else - int (parseInt (takeWhile is_digit r2)))
                 else if s = CHR ''+'' then
                   (if takeWhile is_digit r2 = [] then 0 else int (parseInt (takeWhile is_digit r2)))
                 else int (parseInt (takeWhile is_digit r1)))
          else 0)"

definition scale10 :: "real \<Rightarrow> int \<Rightarrow> real" where
  "scale10 x e = (if 0 \<le> e then x * 10 ^ nat e else x / 10 ^ nat (- e))"

definition parse_unsigned :: "string \<Rightarrow> real option" where
  "parse_unsigned s =
     (let ip = takeWhile is_digit s; r1 = dropWhile is_digit s in
      case r1 of
        [] \<Rightarrow> if ip = [] then None else Some (real (parseInt ip))
      | c # r2 \<Rightarrow>
          if c = CHR ''.'' then
            (let fp = takeWhile is_digit r2; r3 = dropWhile is_digit r2 in
             if ip = [] \<and> fp = [] then None
             else Some (scale10 (real (parseInt (ip @ fp)) / 10 ^ length fp) (parse_exponent r3)))
          else if ip = [] then None
          else Some (scale10 (real (parseInt ip)) (parse_exponent r1)))"

definition parseFloat :: "string \<Rightarrow> real option" where
  "parseFloat s =
     (case dropWhile is_space s of
        [] \<Rightarrow> None
      | c # r \<Rightarrow>
          if c = CHR ''-'' then map_option uminus (parse_unsigned r)
          else if c = CHR ''+'' then parse_unsigned r
          else parse_unsigned (c # r))"

text \<open>\<^verbatim>\<open>Math.round\<close> rounds half up; \<^verbatim>\<open>x % 1\<close> keeps the sign of \<open>x\<close>.\<close>

definition Math_round :: "real \<Rightarrow> int" where
  "Math_round x = \<lfloor>x + 1 / 2\<rfloor>"

definition round2 :: "real \<Rightarrow> real" where
  "round2 x = real_of_int (Math_round (x * 100)) / 100"

definition rem1 :: "real \<Rightarrow> real" where
  "rem1 x = (if 0 \<le> x then x - real_of_int \<lfloor>x\<rfloor> else x - real_of_int \<lceil>x\<rceil>)"

section \<open>Time Parser\<close>

text \<open>
  The part the two time patterns share,
  \<^verbatim>\<open>(\d{1,2}):(\d{2})(?::(\d{2}))?\s*(AM|PM)?\<close>, matched at the start of a string. The result
  is the four capture groups (a group that did not take part is \<open>None\<close>) and the text left
  after the match. Every quantifier is greedy, and no shorter choice can make a failed match
  succeed, because each part is followed by a character it cannot contain.
\<close>

type_synonym captures = "string \<times> string \<times> string option \<times> string option"

definition two_digits :: "string \<Rightarrow> bool" where
  "two_digits s = (length (take 2 s) = 2 \<and> list_all is_digit (take 2 s))"

definition time_core :: "string \<Rightarrow> (captures \<times> string) option" where
  "time_core s =
     (let hh = takeWhile is_digit s; r1 = dropWhile is_digit s in
      if hh = [] \<or> 2 < length hh then None
      else
        (case r1 of
           [] \<Rightarrow> None
         | c # r2 \<Rightarrow>
             if c \<noteq> CHR '':'' \<or> \<not> two_digits r2 then None
             else
               (let mm = take 2 r2; r3 = drop 2 r2;
                    sec = (case r3 of
                             [] \<Rightarrow> False
                           | c1 # r3' \<Rightarrow> c1 = CHR '':'' \<and> two_digits r3');
                    ss = (if sec then Some (take 2 (drop 1 r3)) else None);
                    r4 = (if sec then drop 3 r3 else r3);
                    r5 = dropWhile is_space r4;
                    period = (if take 2 r5 = ''AM'' then Some ''AM''
                              else if take 2 r5 = ''PM'' then Some ''PM'' else None);
                    r6 = (if period = None then r5 else drop 2 r5)
                in Some ((hh, mm, ss, period), r6))))"

text \<open>\<^verbatim>\<open>str.match(/^(\d{1,2}):(\d{2})(?::(\d{2}))?\s*(AM|PM)?$/i)\<close> on an upper-cased string.\<close>

definition ampmMatch :: "string \<Rightarrow> captures option" where
  "ampmMatch str =
     (case time_core str of
        None \<Rightarrow> None
      | Some (caps, rest) \<Rightarrow> if rest = [] then Some caps else None)"

text \<open>
  \<^verbatim>\<open>str.match(/\d+[\/\-]\d+[\/\-]\d+\s+(\d{1,2}):(\d{2})(?::(\d{2}))?\s*(AM|PM)?/i)\<close>: the
  pattern is not anchored, so the match is the one at the leftmost position where it succeeds.
\<close>

definition is_date_sep :: "char \<Rightarrow> bool" where
  "is_date_sep c = (c = CHR ''/'' \<or> c = CHR ''-'')"

definition digits_then_sep :: "string \<Rightarrow> string option" where
  "digits_then_sep s =
     (if takeWhile is_digit s = [] then None
      else
        (case dropWhile is_digit s of
           [] \<Rightarrow> None
         | c # r \<Rightarrow> if is_date_sep c then Some r else None))"

definition dateTime_at :: "string \<Rightarrow> captures option" where
  "dateTime_at s =
     (case digits_then_sep s of
        None \<Rightarrow> None
      | Some r1 \<Rightarrow>
          (case digits_then_sep r1 of
             None \<Rightarrow> None
           | Some r2 \<Rightarrow>
               (let r3 = dropWhile is_digit r2 in
                if takeWhile is_digit r2 = [] \<or> takeWhile is_space r3 = [] then None
                else map_option fst (time_core (dropWhile is_space r3)))))"

fun dateTimeMatch :: "string \<Rightarrow> captures option" where
  "dateTimeMatch [] = None"
| "dateTimeMatch (c # cs) =
     (case dateTime_at (c # cs) of
        Some caps \<Rightarrow> Some caps
      | None \<Rightarrow> dateTimeMatch cs)"

text \<open>The arithmetic both branches of \<^verbatim>\<open>parseTimeString\<close> end with.\<close>

definition normalizeHours :: "string option \<Rightarrow> nat \<Rightarrow> nat" where
  "normalizeHours period hours =
     (if period = Some ''PM'' \<and> hours \<noteq> 12 then hours + 12
      else if period = Some ''AM'' \<and> hours = 12 then 0
      else hours)"

definition dayFraction :: "nat \<Rightarrow> nat \<Rightarrow> nat \<Rightarrow> real" where
  "dayFraction hours minutes seconds =
     (real hours + real minutes / 60 + real seconds / 3600) / 24"

definition secondsOf :: "string option \<Rightarrow> nat" where
  "secondsOf g = (case g of None \<Rightarrow> 0 | Some ds \<Rightarrow> parseInt ds)"

text \<open>
  The bare time pattern and the decimal fallback, as every version of \<^verbatim>\<open>parseTimeString\<close>
  has them. The result \<open>- 1\<close> is the source's signal for an invalid time.
\<close>

definition parseBareTime :: "string \<Rightarrow> real" where
  "parseBareTime str =
     (case ampmMatch str of
        Some (h, m, s, period) \<Rightarrow>
          (let hours = parseInt h; minutes = parseInt m; seconds = secondsOf s in
           if hours > 23 \<or> minutes > 59 \<or> seconds > 59 then - 1
           else dayFraction (normalizeHours period hours) minutes seconds)
      | None \<Rightarrow>
          (case parseFloat str of
             None \<Rightarrow> - 1
           | Some num \<Rightarrow> if num \<ge> 0 \<and> num \<le> 1 then num else - 1))"

text \<open>\<^verbatim>\<open>parseTimeString\<close> of the version with the date and time pattern (tried first).\<close>

definition parseTimeString :: "string \<Rightarrow> real" where
  "parseTimeString timeStr =
     (if timeStr = [] \<or> trim timeStr = [] then - 1
      else
        (let str = toUpperCase (trim timeStr) in
         case dateTimeMatch str of
           Some (h, m, s, period) \<Rightarrow>
             dayFraction (normalizeHours period (parseInt h)) (parseInt m) (secondsOf s)
         | None \<Rightarrow> parseBareTime str))"

text \<open>\<^verbatim>\<open>parseTimeString\<close> of the versions without the date and time pattern.\<close>

definition parseTimeString_plain :: "string \<Rightarrow> real" where
  "parseTimeString_plain timeStr =
     (if timeStr = [] \<or> trim timeStr = [] then - 1
      else parseBareTime (toUpperCase (trim timeStr)))"

section \<open>Duration Calculator\<close>

text \<open>
  One operand of \<^verbatim>\<open>calculateHoursFromTimes\<close>: a number keeps its fraction, a string goes
  through the time parser, anything else (and an invalid string) makes the function return 0,
  which is \<open>None\<close> here.
\<close>

definition timeDecimal :: "(string \<Rightarrow> real) \<Rightarrow> jsval \<Rightarrow> real option" where
  "timeDecimal parse v =
     (case v of
        JNum x \<Rightarrow> Some (rem1 x)
      | JStr s \<Rightarrow> (let parsed = parse s in if parsed = - 1 then None else Some parsed)
      | _ \<Rightarrow> None)"

definition isMissing :: "jsval \<Rightarrow> bool" where
  "isMissing v = (v = JNull \<or> v = JUndefined \<or> v = JStr [])"

definition hoursBetween :: "(string \<Rightarrow> real) \<Rightarrow> jsval \<Rightarrow> jsval \<Rightarrow> real" where
  "hoursBetween parse startTime endTime =
     (if isMissing startTime \<or> isMissing endTime then 0
      else
        (case timeDecimal parse startTime of
           None \<Rightarrow> 0
         | Some startDecimal \<Rightarrow>
             (case timeDecimal parse endTime of
                None \<Rightarrow> 0
              | Some endDecimal \<Rightarrow>
                  (let hoursDiff = (endDecimal - startDecimal) * 24;
                       hoursDiff = (if hoursDiff < 0 then hoursDiff + 24 else hoursDiff);
                       hoursDiff = (if hoursDiff > 24 then 24 else hoursDiff)
                   in hoursDiff))))"

definition calculateHoursFromTimes :: "jsval \<Rightarrow> jsval \<Rightarrow> real" where
  "calculateHoursFromTimes = hoursBetween parseTimeString"

definition calculateHoursFromTimes_plain :: "jsval \<Rightarrow> jsval \<Rightarrow> real" where
  "calculateHoursFromTimes_plain = hoursBetween parseTimeString_plain"

section \<open>Date Normalizer\<close>

text \<open>
  What the code takes from its platform and not from this repository is a parameter of the
  model: the time value of \<^verbatim>\<open>new Date(s)\<close> for a string (\<open>None\<close> for an invalid date), the
  time value of \<^verbatim>\<open>new Date(1899, 11, 30)\<close> (midnight in the server's own time zone), the
  text of a number, and the identifiers \<^verbatim>\<open>randomUUID\<close> hands out, numbered by call.
\<close>

record host =
  dateParse :: "string \<Rightarrow> int option"
  excelEpoch :: int
  numberToString :: "real \<Rightarrow> string"
  randomUUID :: "nat \<Rightarrow> string"

definition js_String :: "host \<Rightarrow> jsval \<Rightarrow> string" where
  "js_String h v =
     (case v of
        JUndefined \<Rightarrow> ''undefined''
      | JNull \<Rightarrow> ''null''
      | JBool b \<Rightarrow> (if b then ''true'' else ''false'')
      | JNum x \<Rightarrow> numberToString h x
      | JStr s \<Rightarrow> s)"

fun show_nat :: "nat \<Rightarrow> string" where
  "show_nat n =
     (if n < 10 then [char_of (48 + n)]
      else show_nat (n div 10) @ [char_of (48 + n mod 10)])"

declare show_nat.simps [simp del]

definition pad :: "nat \<Rightarrow> nat \<Rightarrow> string" where
  "pad w n = replicate (w - length (show_nat n)) (CHR ''0'') @ show_nat n"

text \<open>
  The calendar date of a day number (days since 1970-01-01) in the proleptic Gregorian
  calendar, which is what \<^verbatim>\<open>YearFromTime\<close>, \<^verbatim>\<open>MonthFromTime\<close> and \<^verbatim>\<open>DateFromTime\<close> of the
  language standard compute; the year is counted from March inside a 400-year era.
\<close>

definition civil_from_days :: "int \<Rightarrow> int \<times> int \<times> int" where
  "civil_from_days z =
     (let z1 = z + 719468;
          era = z1 div 146097;
          doe = z1 - era * 146097;
          yoe = (doe - doe div 1460 + doe div 36524 - doe div 146096) div 365;
          doy = doe - (365 * yoe + yoe div 4 - yoe div 100);
          mp = (5 * doy + 2) div 153;
          d = doy - (153 * mp + 2) div 5 + 1;
          m = (if mp < 10 then mp + 3 else mp - 9);
          y = yoe + era * 400 + (if m \<le> 2 then 1 else 0)
      in (y, m, d))"

definition msPerDay :: int where
  "msPerDay = 86400000"

text \<open>
  \<^verbatim>\<open>date.toISOString().split("T")[0]\<close> for a valid time value: the text of its day, with
  the year in four digits, or signed in six outside 0 to 9999.
\<close>

definition isoDay :: "int \<Rightarrow> string" where
  "isoDay day =
     (case civil_from_days day of
        (y, m, d) \<Rightarrow>
          (if 0 \<le> y \<and> y \<le> 9999 then pad 4 (nat y)
           else (if y < 0 then ''-'' else ''+'') @ pad 6 (nat \<bar>y\<bar>))
          @ ''-'' @ pad 2 (nat m) @ ''-'' @ pad 2 (nat d))"

definition isoDate :: "int \<Rightarrow> string" where
  "isoDate t = isoDay (t div msPerDay)"

text \<open>
  \<^verbatim>\<open>new Date(x)\<close> for a number: the time value is \<open>x\<close> truncated, or invalid beyond
  \<open>8.64e15\<close> milliseconds. \<^verbatim>\<open>toISOString\<close> of an invalid date throws a \<^verbatim>\<open>RangeError\<close>.
\<close>

definition timeClip :: "real \<Rightarrow> int option" where
  "timeClip x =
     (if \<bar>x\<bar> > 8640000000000000 then None
      else Some (if 0 \<le> x then \<lfloor>x\<rfloor> else \<lceil>x\<rceil>))"

datatype exn = RangeError

definition exn_message :: "exn \<Rightarrow> string" where
  "exn_message e = (case e of RangeError \<Rightarrow> ''Invalid time value'')"

definition parseDate :: "host \<Rightarrow> jsval \<Rightarrow> exn + string" where
  "parseDate h dateValue =
     (if \<not> truthy dateValue then Inr []
      else
        (case dateValue of
           JStr s \<Rightarrow>
             (case dateParse h s of
                Some t \<Rightarrow> Inr (isoDate t)
              | None \<Rightarrow> Inr s)
         | JNum x \<Rightarrow>
             (case timeClip (real_of_int (excelEpoch h) + x * 86400000) of
                Some t \<Rightarrow> Inr (isoDate t)
              | None \<Rightarrow> Inl RangeError)
         | _ \<Rightarrow> Inr (js_String h dateValue)))"

text \<open>
  A host for the worked examples: a server in the UTC zone, whose date parser is given for the
  one date text the examples use (midnight of 2 January 2024), whose numbers print as their
  integer part, and whose identifiers are numbered.
\<close>

definition utc_host :: host where
  "utc_host =
     \<lparr> dateParse = (\<lambda>s. if s = ''1/2/2024'' then Some 1704153600000 else None),
       excelEpoch = - 2209161600000,
       numberToString = (\<lambda>x. if x < 0 then ''-'' @ show_nat (nat \<lfloor>- x\<rfloor>) else show_nat (nat \<lfloor>x\<rfloor>)),
       randomUUID = (\<lambda>k. ''id-'' @ show_nat k) \<rparr>"

section \<open>Rows, trades and responses\<close>

record TradeRow =
  person1 :: string
  date :: string
  hours :: real
  person2 :: string

text \<open>A \<^verbatim>\<open>Trade\<close> is a \<^verbatim>\<open>TradeRow\<close> with its identifier (the field \<^verbatim>\<open>id\<close> of the schema).\<close>

record Trade = TradeRow +
  trade_id :: string

text \<open>
  A response is \<^verbatim>\<open>{ success: false, message }\<close> with its HTTP status, or
  \<^verbatim>\<open>{ success: true, trades, message }\<close>.
\<close>

datatype response = Failure nat string | Success "Trade list" string

text \<open>What \<^verbatim>\<open>upload.single("file")\<close> and the workbook reader hand to the upload handlers.\<close>

datatype 'r upload = NoFile | Unreadable string | NoSheet | Sheet "'r list"

definition LF :: char where
  "LF = CHR 0x0A"

definition CR :: char where
  "CR = CHR 0x0D"

definition TAB :: char where
  "TAB = CHR 0x09"

definition cons_first :: "char \<Rightarrow> string list \<Rightarrow> string list" where
  "cons_first c ls = (case ls of [] \<Rightarrow> [[c]] | l # rest \<Rightarrow> (c # l) # rest)"

text \<open>\<^verbatim>\<open>line.split(delimiter)\<close> for a delimiter of one character.\<close>

fun split_on :: "char \<Rightarrow> string \<Rightarrow> string list" where
  "split_on d [] = [[]]"
| "split_on d (c # cs) =
     (if c = d then [] # split_on d cs else cons_first c (split_on d cs))"

text \<open>\<^verbatim>\<open>text.split(/\r?\n/)\<close>: a line feed, with the carriage return before it if there is one.\<close>

fun split_lines :: "string \<Rightarrow> string list" where
  "split_lines [] = [[]]"
| "split_lines [c] = (if c = LF then [[], []] else [[c]])"
| "split_lines (c # d # cs) =
     (if c = LF then [] # split_lines (d # cs)
      else if c = CR \<and> d = LF then [] # split_lines cs
      else cons_first c (split_lines (d # cs)))"


text \<open>\<^verbatim>\<open>s.includes(name)\<close>.\<close>

fun str_includes :: "string \<Rightarrow> string \<Rightarrow> bool" where
  "str_includes [] name = (name = [])"
| "str_includes (c # cs) name = (take (length name) (c # cs) = name \<or> str_includes cs name)"

text \<open>\<^verbatim>\<open>/^[a-zA-Z\s]+$/.test(date)\<close>: the header-row heuristic.\<close>

definition isHeaderText :: "string \<Rightarrow> bool" where
  "isHeaderText s = (s \<noteq> [] \<and> list_all (\<lambda>c. is_lower c \<or> is_upper c \<or> is_space c) s)"

text \<open>\<^verbatim>\<open>s.replace(/[^\d.-]/g, "")\<close>.\<close>

definition keepNumeric :: "string \<Rightarrow> string" where
  "keepNumeric s = filter (\<lambda>c. is_digit c \<or> c = CHR ''.'' \<or> c = CHR ''-'') s"

section \<open>Column Resolver\<close>

definition nameMatches :: "string \<Rightarrow> string list \<Rightarrow> bool" where
  "nameMatches key possibleNames = list_ex (\<lambda>name. key = name \<or> str_includes key name) possibleNames"

text \<open>\<^verbatim>\<open>findColumnIndex\<close>; the source's \<open>-1\<close> is \<open>None\<close>.\<close>

fun findColumnIndex_from :: "nat \<Rightarrow> string list \<Rightarrow> string list \<Rightarrow> nat option" where
  "findColumnIndex_from i [] possibleNames = None"
| "findColumnIndex_from i (header # rest) possibleNames =
     (if nameMatches (trim (toLowerCase header)) possibleNames then Some i
      else findColumnIndex_from (Suc i) rest possibleNames)"

definition findColumnIndex :: "string list \<Rightarrow> string list \<Rightarrow> nat option" where
  "findColumnIndex headers possibleNames = findColumnIndex_from 0 headers possibleNames"

text \<open>
  \<^verbatim>\<open>findColumnValue\<close>: a row object is the list of its keys and values in the order of
  \<^verbatim>\<open>Object.keys\<close>.
\<close>

fun findColumnValue :: "(string \<times> jsval) list \<Rightarrow> string list \<Rightarrow> jsval" where
  "findColumnValue [] possibleNames = JNull"
| "findColumnValue ((key, v) # rest) possibleNames =
     (if nameMatches (trim (toLowerCase key)) possibleNames then v
      else findColumnValue rest possibleNames)"

definition person1Names :: "string list" where
  "person1Names = [''person 1'', ''person1'', ''name1'', ''employee1'', ''from'', ''employee'']"

definition person2Names :: "string list" where
  "person2Names = [''person 2'', ''person2'', ''name2'', ''employee2'', ''to'', ''partner'']"

definition dateNames :: "string list" where
  "dateNames = [''trade date'', ''date'', ''shift date'']"

definition startTimeNames :: "string list" where
  "startTimeNames = [''trade start time'', ''start time'', ''start'', ''time start'']"

definition endTimeNames :: "string list" where
  "endTimeNames = [''trade end time'', ''end time'', ''end'', ''time end'']"

definition hoursNames :: "string list" where
  "hoursNames = [''hours'', ''hour'', ''duration'']"

text \<open>The fixed positions: columns E, F, G, H and K.\<close>

definition PERSON1_COL :: nat where "PERSON1_COL = 4"
definition DATE_COL :: nat where "DATE_COL = 5"
definition START_TIME_COL :: nat where "START_TIME_COL = 6"
definition END_TIME_COL :: nat where "END_TIME_COL = 7"
definition PERSON2_COL :: nat where "PERSON2_COL = 10"

section \<open>Row Validator and Trade Builder\<close>

text \<open>
  The object pushed on \<^verbatim>\<open>trades\<close>. \<^verbatim>\<open>parseDate\<close> can throw, which ends the whole request in
  the handler's \<^verbatim>\<open>catch\<close>.
\<close>

definition makeTrade :: "host \<Rightarrow> jsval \<Rightarrow> jsval \<Rightarrow> jsval \<Rightarrow> real \<Rightarrow> exn + TradeRow option" where
  "makeTrade h p1 p2 d hrs =
     (case parseDate h d of
        Inl e \<Rightarrow> Inl e
      | Inr isoText \<Rightarrow>
          Inr (Some \<lparr> person1 = toUpperCase (trim (js_String h p1)), date = isoText, hours = hrs,
                      person2 = toUpperCase (trim (js_String h p2)) \<rparr>))"

text \<open>The loop over the rows: a row gives a trade, nothing, or an exception that ends the loop.\<close>

fun collectRows :: "('r \<Rightarrow> exn + TradeRow option) \<Rightarrow> 'r list \<Rightarrow> exn + TradeRow list" where
  "collectRows f [] = Inr []"
| "collectRows f (r # rs) =
     (case f r of
        Inl e \<Rightarrow> Inl e
      | Inr t \<Rightarrow>
          (case collectRows f rs of
             Inl e \<Rightarrow> Inl e
           | Inr ts \<Rightarrow> Inr (case t of None \<Rightarrow> ts | Some x \<Rightarrow> x # ts)))"

definition withIds :: "host \<Rightarrow> TradeRow list \<Rightarrow> Trade list" where
  "withIds h trades =
     map (\<lambda>(k, t). \<lparr> person1 = person1 t, date = date t, hours = hours t, person2 = person2 t,
                      trade_id = randomUUID h k \<rparr>)
         (zip [0 ..< length trades] trades)"

text \<open>
  The end of every handler: no trade is the failure whose message starts
  \<^verbatim>\<open>No valid trade data found\<close>, an exception is the failure of the \<^verbatim>\<open>catch\<close>, and otherwise
  the trades get their identifiers.
\<close>

definition finish :: "host \<Rightarrow> string \<Rightarrow> exn + TradeRow list \<Rightarrow> response" where
  "finish h noValidRows r =
     (case r of
        Inl e \<Rightarrow> Failure 500 (exn_message e)
      | Inr trades \<Rightarrow>
          if length trades = 0 then Failure 400 noValidRows
          else
            (let tradesWithIds = withIds h trades in
             Success tradesWithIds
               (''Successfully loaded '' @ show_nat (length tradesWithIds) @ '' trades'')))"

subsection \<open>Pasted text, fixed columns\<close>

definition cellAt :: "string list \<Rightarrow> nat \<Rightarrow> string" where
  "cellAt cells i = (if i < length cells then trim (cells ! i) else [])"

definition pasteFixedCells :: "host \<Rightarrow> string list \<Rightarrow> exn + TradeRow option" where
  "pasteFixedCells h cells =
     (let person1_cell = cellAt cells PERSON1_COL;
          date_cell = cellAt cells DATE_COL;
          startTime = cellAt cells START_TIME_COL;
          endTime = cellAt cells END_TIME_COL;
          person2_cell = cellAt cells PERSON2_COL
      in
        if isHeaderText date_cell then Inr None
        else if person1_cell \<noteq> [] \<and> person2_cell \<noteq> [] \<and> date_cell \<noteq> [] then
          (let hoursNum = calculateHoursFromTimes (JStr startTime) (JStr endTime) in
           if hoursNum > 0
           then makeTrade h (JStr person1_cell) (JStr person2_cell) (JStr date_cell) (round2 hoursNum)
           else Inr None)
        else Inr None)"

definition pasteFixedRow :: "host \<Rightarrow> char \<Rightarrow> string \<Rightarrow> exn + TradeRow option" where
  "pasteFixedRow h delimiter rawLine =
     (let line = trim rawLine in
      if line = [] then Inr None
      else pasteFixedCells h (split_on delimiter line))"

definition detectDelimiter :: "string \<Rightarrow> char" where
  "detectDelimiter firstLine = (if TAB \<in> set firstLine then TAB else CHR '','')"

definition noDataProvided :: string where
  "noDataProvided = ''No data provided. Please paste your Excel data.''"

definition noDataRows :: string where
  "noDataRows = ''No data rows found in pasted text.''"

definition noValidRows_pasteFixed :: string where
  "noValidRows_pasteFixed = ''No valid trade data found. Please ensure you paste data with columns E (Person 1), F (Date), G (Start Time), H (End Time), and K (Person 2)''"

definition parsePaste_fixed :: "host \<Rightarrow> jsval \<Rightarrow> response" where
  "parsePaste_fixed h body_text =
     (case body_text of
        JStr t \<Rightarrow>
          if t = [] \<or> length (trim t) = 0 then Failure 400 noDataProvided
          else
            (case split_lines (trim t) of
               [] \<Rightarrow> Failure 400 noDataRows
             | firstLine # others \<Rightarrow>
                 (let delimiter = detectDelimiter firstLine in
                  finish h noValidRows_pasteFixed
                    (collectRows (pasteFixedRow h delimiter) (firstLine # others))))
      | _ \<Rightarrow> Failure 400 noDataProvided)"

subsection \<open>Workbook, fixed columns\<close>

text \<open>
  A row of the grid is the array of its cells (the reader gives arrays, so of the test
  \<^verbatim>\<open>!row || row.length === 0\<close> the length is what decides); a cell beyond the end of the row is
  \<^verbatim>\<open>undefined\<close>.
\<close>

definition rowAt :: "jsval list \<Rightarrow> nat \<Rightarrow> jsval" where
  "rowAt row i = (if i < length row then row ! i else JUndefined)"

definition uploadFixedRow :: "host \<Rightarrow> jsval list \<Rightarrow> exn + TradeRow option" where
  "uploadFixedRow h row =
     (if length row = 0 then Inr None
      else
        (let person1_cell = rowAt row PERSON1_COL;
             date_cell = rowAt row DATE_COL;
             startTime = rowAt row START_TIME_COL;
             endTime = rowAt row END_TIME_COL;
             person2_cell = rowAt row PERSON2_COL
         in
           if (case date_cell of JStr s \<Rightarrow> isHeaderText (trim s) | _ \<Rightarrow> False) then Inr None
           else if truthy person1_cell \<and> truthy person2_cell \<and> truthy date_cell then
             (let hoursNum = calculateHoursFromTimes startTime endTime in
              if hoursNum > 0
              then makeTrade h person1_cell person2_cell date_cell (round2 hoursNum)
              else Inr None)
           else Inr None))"

definition noFileUploaded :: string where
  "noFileUploaded = ''No file uploaded''"

definition excelEmpty :: string where
  "excelEmpty = ''Excel file is empty''"

definition noDataFound :: string where
  "noDataFound = ''No data found in Excel file''"

definition noValidRows_uploadFixed :: string where
  "noValidRows_uploadFixed = ''No valid trade data found. Please ensure your Excel file has data in columns E (Person 1), F (Date), G (Start Time), H (End Time), and K (Person 2)''"

definition uploadWith :: "host \<Rightarrow> string \<Rightarrow> ('r \<Rightarrow> exn + TradeRow option) \<Rightarrow> 'r upload \<Rightarrow> response" where
  "uploadWith h noValidRows rowFn file =
     (case file of
        NoFile \<Rightarrow> Failure 400 noFileUploaded
      | Unreadable msg \<Rightarrow> Failure 500 msg
      | NoSheet \<Rightarrow> Failure 400 excelEmpty
      | Sheet rawData \<Rightarrow>
          if length rawData = 0 then Failure 400 noDataFound
          else finish h noValidRows (collectRows rowFn rawData))"

definition upload_fixed :: "host \<Rightarrow> (jsval list) upload \<Rightarrow> response" where
  "upload_fixed h file = uploadWith h noValidRows_uploadFixed (uploadFixedRow h) file"

subsection \<open>Pasted text, fuzzy headers\<close>

text \<open>\<^verbatim>\<open>cells[i] || ""\<close> and \<^verbatim>\<open>index !== -1 ? cells[index] : null\<close>.\<close>

definition cellOr :: "string list \<Rightarrow> nat \<Rightarrow> string" where
  "cellOr cells i = (if i < length cells then cells ! i else [])"

definition cellOpt :: "string list \<Rightarrow> nat option \<Rightarrow> jsval" where
  "cellOpt cells idx =
     (case idx of
        None \<Rightarrow> JNull
      | Some i \<Rightarrow> if i < length cells then JStr (cells ! i) else JUndefined)"

text \<open>\<^verbatim>\<open>parseFloat(String(directHours).replace(/[^\d.-]/g, ""))\<close>; \<open>None\<close> is \<^verbatim>\<open>NaN\<close>.\<close>

definition directHoursNum :: "host \<Rightarrow> jsval \<Rightarrow> real option" where
  "directHoursNum h v = parseFloat (keepNumeric (js_String h v))"

text \<open>The end of a row once \<^verbatim>\<open>hoursNum\<close> is known: \<^verbatim>\<open>!isNaN(hoursNum) && hoursNum > 0\<close>.\<close>

definition pushRounded :: "host \<Rightarrow> jsval \<Rightarrow> jsval \<Rightarrow> jsval \<Rightarrow> real option \<Rightarrow> exn + TradeRow option" where
  "pushRounded h p1 p2 d hoursNum =
     (case hoursNum of
        None \<Rightarrow> Inr None
      | Some x \<Rightarrow> if x > 0 then makeTrade h p1 p2 d (round2 x) else Inr None)"

definition pasteFuzzyCells ::
  "host \<Rightarrow> nat \<Rightarrow> nat \<Rightarrow> nat \<Rightarrow> nat option \<Rightarrow> nat option \<Rightarrow> nat option \<Rightarrow> string list
     \<Rightarrow> exn + TradeRow option" where
  "pasteFuzzyCells h person1Index person2Index dateIndex startTimeIndex endTimeIndex hoursIndex
       cells =
     (let person1_cell = cellOr cells person1Index;
          person2_cell = cellOr cells person2Index;
          date_cell = cellOr cells dateIndex;
          startTime = cellOpt cells startTimeIndex;
          endTime = cellOpt cells endTimeIndex;
          directHours = cellOpt cells hoursIndex
      in
        if person1_cell \<noteq> [] \<and> person2_cell \<noteq> [] \<and> date_cell \<noteq> [] then
          (let hoursNum =
                 (if truthy startTime \<and> truthy endTime
                  then Some (calculateHoursFromTimes_plain startTime endTime)
                  else if truthy directHours then directHoursNum h directHours
                  else Some 0)
           in pushRounded h (JStr person1_cell) (JStr person2_cell) (JStr date_cell) hoursNum)
        else Inr None)"

definition pasteFuzzyRow ::
  "host \<Rightarrow> char \<Rightarrow> nat \<Rightarrow> nat \<Rightarrow> nat \<Rightarrow> nat option \<Rightarrow> nat option \<Rightarrow> nat option \<Rightarrow> string
     \<Rightarrow> exn + TradeRow option" where
  "pasteFuzzyRow h delimiter person1Index person2Index dateIndex startTimeIndex endTimeIndex
       hoursIndex rawLine =
     (let line = trim rawLine in
      if line = [] then Inr None
      else
        pasteFuzzyCells h person1Index person2Index dateIndex startTimeIndex endTimeIndex hoursIndex
          (map trim (split_on delimiter line)))"

definition noColumns :: string where
  "noColumns = ''Could not find required columns. Please ensure your data has headers: Person 1, Trade Date, Person 2, and either Trade Start Time/End Time or Hours.''"

definition noValidRows_pasteFuzzy :: string where
  "noValidRows_pasteFuzzy = ''No valid trade data found. Please check that your data includes Person 1, Trade Date, Person 2, and valid time information.''"

text \<open>\<^verbatim>\<open>lines[0].split(delimiter).map(h => h.trim().toLowerCase())\<close>.\<close>

definition headersOf :: "char \<Rightarrow> string \<Rightarrow> string list" where
  "headersOf d firstLine = map (\<lambda>x. toLowerCase (trim x)) (split_on d firstLine)"

text \<open>The handler from the header line on, for the delimiter it has detected.\<close>

definition pasteFuzzyLines :: "host \<Rightarrow> char \<Rightarrow> string \<Rightarrow> string list \<Rightarrow> response" where
  "pasteFuzzyLines h delimiter firstLine others =
     (let headers = headersOf delimiter firstLine;
          person1Index = findColumnIndex headers person1Names;
          person2Index = findColumnIndex headers person2Names;
          dateIndex = findColumnIndex headers dateNames;
          startTimeIndex = findColumnIndex headers startTimeNames;
          endTimeIndex = findColumnIndex headers endTimeNames;
          hoursIndex = findColumnIndex headers hoursNames
      in
        (case (person1Index, person2Index, dateIndex) of
           (Some i1, Some i2, Some i3) \<Rightarrow>
             finish h noValidRows_pasteFuzzy
               (collectRows
                  (pasteFuzzyRow h delimiter i1 i2 i3 startTimeIndex endTimeIndex hoursIndex)
                  others)
         | _ \<Rightarrow> Failure 400 noColumns))"

definition parsePaste_fuzzy :: "host \<Rightarrow> jsval \<Rightarrow> response" where
  "parsePaste_fuzzy h body_text =
     (case body_text of
        JStr t \<Rightarrow>
          if t = [] \<or> length (trim t) = 0 then Failure 400 noDataProvided
          else
            (case split_lines (trim t) of
               [] \<Rightarrow> Failure 400 noDataRows
             | firstLine # others \<Rightarrow>
                 pasteFuzzyLines h (detectDelimiter firstLine) firstLine others)
      | _ \<Rightarrow> Failure 400 noDataProvided)"

subsection \<open>Workbook, fuzzy headers\<close>

definition uploadFuzzyRow :: "host \<Rightarrow> (string \<times> jsval) list \<Rightarrow> exn + TradeRow option" where
  "uploadFuzzyRow h row =
     (let person1_cell = findColumnValue row person1Names;
          person2_cell = findColumnValue row person2Names;
          date_cell = findColumnValue row dateNames;
          startTime = findColumnValue row startTimeNames;
          endTime = findColumnValue row endTimeNames;
          directHours = findColumnValue row hoursNames
      in
        if truthy person1_cell \<and> truthy person2_cell \<and> truthy date_cell then
          (let hoursNum =
                 (if startTime \<noteq> JNull \<and> endTime \<noteq> JNull
                  then Some (calculateHoursFromTimes_plain startTime endTime)
                  else if directHours \<noteq> JNull then directHoursNum h directHours
                  else Some 0)
           in pushRounded h person1_cell person2_cell date_cell hoursNum)
        else Inr None)"

definition noValidRows_uploadFuzzy :: string where
  "noValidRows_uploadFuzzy = ''No valid trade data found. Please ensure your Excel file has columns: Person 1, Trade Date, Trade Start Time, Trade End Time, Person 2''"

definition upload_fuzzy :: "host \<Rightarrow> ((string \<times> jsval) list) upload \<Rightarrow> response" where
  "upload_fuzzy h file = uploadWith h noValidRows_uploadFuzzy (uploadFuzzyRow h) file"

subsection \<open>Workbook, Hours column only (the first version of the upload handler)\<close>

definition person1Names_v1 :: "string list" where
  "person1Names_v1 = [''person 1'', ''person1'', ''name1'', ''employee1'', ''from'']"

definition person2Names_v1 :: "string list" where
  "person2Names_v1 = [''person 2'', ''person2'', ''name2'', ''employee2'', ''to'']"

definition dateNames_v1 :: "string list" where
  "dateNames_v1 = [''date'', ''trade date'', ''shift date'']"

definition hoursNames_v1 :: "string list" where
  "hoursNames_v1 = [''hours'', ''hour'', ''time'', ''duration'']"

definition uploadHoursRow :: "host \<Rightarrow> (string \<times> jsval) list \<Rightarrow> exn + TradeRow option" where
  "uploadHoursRow h row =
     (let person1_cell = findColumnValue row person1Names_v1;
          person2_cell = findColumnValue row person2Names_v1;
          date_cell = findColumnValue row dateNames_v1;
          hours_cell = findColumnValue row hoursNames_v1
      in
        if truthy person1_cell \<and> truthy person2_cell \<and> truthy date_cell \<and> truthy hours_cell then
          (case directHoursNum h hours_cell of
             None \<Rightarrow> Inr None
           | Some hoursNum \<Rightarrow>
               if hoursNum > 0 then makeTrade h person1_cell person2_cell date_cell hoursNum
               else Inr None)
        else Inr None)"

definition noValidRows_uploadHours :: string where
  "noValidRows_uploadHours = ''No valid trade data found. Please ensure your Excel file has columns: Person 1, Date, Hours, Person 2''"

definition upload_hours :: "host \<Rightarrow> ((string \<times> jsval) list) upload \<Rightarrow> response" where
  "upload_hours h file = uploadWith h noValidRows_uploadHours (uploadHoursRow h) file"

section \<open>Reconciliation Aggregator\<close>

record PersonSummary =
  name :: string
  youWorked :: real
  theyWorked :: real
  total_net :: real

text \<open>
  \<^verbatim>\<open>uniqueNames\<close>: a \<^verbatim>\<open>Set\<close> keeps the names in the order of their first insertion, and
  \<^verbatim>\<open>sort()\<close> then orders them as strings.
\<close>

definition addName :: "string list \<Rightarrow> string \<Rightarrow> string list" where
  "addName names n = (if n \<in> set names then names else names @ [n])"

definition uniqueNames :: "Trade list \<Rightarrow> string list" where
  "uniqueNames trades =
     sort (foldl (\<lambda>names trade. addName (addName names (person1 trade)) (person2 trade)) [] trades)"

text \<open>
  \<^verbatim>\<open>summaryMap\<close> is the list of its entries in insertion order. An entry is looked up by
  name and changed in place; a name that is not a key changes nothing.
\<close>

type_synonym summaryMap = "(string \<times> real \<times> real) list"

definition addYouWorked :: "string \<Rightarrow> real \<Rightarrow> summaryMap \<Rightarrow> summaryMap" where
  "addYouWorked k x m = map (\<lambda>(n, you, they). if n = k then (n, you + x, they) else (n, you, they)) m"

definition addTheyWorked :: "string \<Rightarrow> real \<Rightarrow> summaryMap \<Rightarrow> summaryMap" where
  "addTheyWorked k x m = map (\<lambda>(n, you, they). if n = k then (n, you, they + x) else (n, you, they)) m"

definition tally :: "summaryMap \<Rightarrow> Trade \<Rightarrow> summaryMap" where
  "tally m trade =
     addTheyWorked (person2 trade) (hours trade) (addYouWorked (person1 trade) (hours trade) m)"

definition toSummary :: "string \<times> real \<times> real \<Rightarrow> PersonSummary" where
  "toSummary e =
     (case e of (n, you, they) \<Rightarrow>
        \<lparr> name = n, youWorked = you, theyWorked = they, total_net = you - they \<rparr>)"

text \<open>
  \<^verbatim>\<open>sort((a, b) => b.total - a.total)\<close> is a stable sort by falling total, that is by
  rising negated total.
\<close>

definition summaryData :: "Trade list \<Rightarrow> PersonSummary list" where
  "summaryData trades =
     (let summaryMap = foldl tally (map (\<lambda>n. (n, 0, 0)) (uniqueNames trades)) trades
      in sort_key (\<lambda>s. - total_net s) (map toSummary summaryMap))"



section \<open>Outcomes and worked examples\<close>


text \<open>
  Scenario A: Alice covers Bob from 9:00 AM to 5:00 PM on 2 January 2024. The row as the
  specification writes it has five cells; the row of the sheet has the five values in columns
  E, F, G, H and K.
\<close>

definition aliceBob :: TradeRow where
  "aliceBob = \<lparr> person1 = ''ALICE'', date = ''2024-01-02'', hours = 8, person2 = ''BOB'' \<rparr>"

definition aliceBobTrade :: "host \<Rightarrow> Trade" where
  "aliceBobTrade h = \<lparr> person1 = ''ALICE'', date = ''2024-01-02'', hours = 8, person2 = ''BOB'',
                        trade_id = randomUUID h 0 \<rparr>"

definition loadedOne :: string where
  "loadedOne = ''Successfully loaded 1 trades''"

definition fiveCellRow :: "jsval list" where
  "fiveCellRow = [JStr ''ALICE'', JStr ''1/2/2024'', JStr ''9:00 AM'', JStr ''5:00 PM'', JStr ''BOB'']"

definition gridRow :: "jsval list" where
  "gridRow = [JStr [], JStr [], JStr [], JStr [], JStr ''ALICE'', JStr ''1/2/2024'', JStr ''9:00 AM'',
              JStr ''5:00 PM'', JStr [], JStr [], JStr ''BOB'']"

text \<open>
  Pasted texts and header-keyed rows: a text with a direct Hours column of 25 and of 0.001
  hours, a row object whose hours come from an Hours column, a text and a row whose hours come
  from start and end times, and a row whose start and end cells are empty while its Hours cell
  is 5.
\<close>

definition hoursText :: string where
  "hoursText = ''Person 1,Trade Date,Hours,Person 2'' @ [LF] @ ''alice,1/2/2024,25,bob''
                 @ [LF] @ ''carol,1/2/2024,0.001,dave''"

definition hoursSheet :: "((string \<times> jsval) list) upload" where
  "hoursSheet = Sheet [[(''Person 1'', JStr ''Alice''), (''Date'', JStr ''1/2/2024''),
                        (''Hours'', JStr ''8''), (''Person 2'', JStr ''Bob'')]]"

definition timesText :: string where
  "timesText = '',,,,Person 1,Trade Date,Trade Start Time,Trade End Time,,,Person 2'' @ [LF]
                 @ '',,,,alice,1/2/2024,9:00 AM,5:00 PM,,,bob''"

definition timesRow :: "(string \<times> jsval) list" where
  "timesRow = [(''Person 1'', JStr ''alice''), (''Trade Date'', JStr ''1/2/2024''),
               (''Trade Start Time'', JStr ''9:00 AM''), (''Trade End Time'', JStr ''5:00 PM''),
               (''Person 2'', JStr ''bob''), (''Hours'', JNum 5)]"

definition timesCells :: "string list" where
  "timesCells = [''alice'', ''1/2/2024'', ''9:00 AM'', ''5:00 PM'', ''bob'']"

definition blankTimesRow :: "(string \<times> jsval) list" where
  "blankTimesRow = [(''Person 1'', JStr ''alice''), (''Trade Date'', JStr ''1/2/2024''),
                    (''Trade Start Time'', JStr []), (''Trade End Time'', JStr []),
                    (''Person 2'', JStr ''bob''), (''Hours'', JNum 5)]"





section \<open>Properties of the Reconciliation Aggregator\<close>


















section \<open>Properties of the Duration Calculator and the Time Parser\<close>

lemma rem1_fraction: "0 \<le> x \<Longrightarrow> x < 1 \<Longrightarrow> rem1 x = x"
  by (simp add: rem1_def floor_eq_iff [THEN iffD2])

lemma hoursBetween_le_24: "hoursBetween parse a b \<le> 24"
  by (simp add: hoursBetween_def Let_def split: option.splits)

lemma hoursBetween_fractions:
  assumes "timeDecimal parse a = Some s" and "timeDecimal parse b = Some e"
    and "\<not> isMissing a" and "\<not> isMissing b"
    and "0 \<le> s" "s < 1" "0 \<le> e" "e < 1"
  shows "hoursBetween parse a b = (if e \<ge> s then (e - s) * 24 else (e - s) * 24 + 24)"
  using assms by (auto simp: hoursBetween_def Let_def)

text \<open>
  Claim C3. For start and end fractions of a day in \<open>[0, 1)\<close>, given as numbers or as the
  values of two time texts, \<^verbatim>\<open>calculateHoursFromTimes\<close> returns \<open>(end - start) * 24\<close> when
  \<open>end \<ge> start\<close> and \<open>(end - start) * 24 + 24\<close> when \<open>end < start\<close>, never more than 24; for the
  texts \<^verbatim>\<open>22:00\<close> and \<^verbatim>\<open>02:00\<close> it returns 4.
\<close>

theorem duration_calculator:
  assumes "0 \<le> s" and "s < 1" and "0 \<le> e" and "e < 1"
  shows "calculateHoursFromTimes (JNum s) (JNum e)
           = (if e \<ge> s then (e - s) * 24 else (e - s) * 24 + 24)
         \<and> calculateHoursFromTimes (JNum s) (JNum e) \<le> 24
         \<and> (parseTimeString x = s \<and> parseTimeString y = e \<longrightarrow>
              calculateHoursFromTimes (JStr x) (JStr y)
                = (if e \<ge> s then (e - s) * 24 else (e - s) * 24 + 24))
         \<and> calculateHoursFromTimes (JStr ''22:00'') (JStr ''02:00'') = 4"
proof -
  have num: "calculateHoursFromTimes (JNum s) (JNum e)
           = (if e \<ge> s then (e - s) * 24 else (e - s) * 24 + 24)"
    unfolding calculateHoursFromTimes_def
    by (rule hoursBetween_fractions [OF _ _ _ _ assms])
       (simp_all add: timeDecimal_def isMissing_def rem1_fraction assms)
  have le: "calculateHoursFromTimes (JNum s) (JNum e) \<le> 24"
    by (simp add: calculateHoursFromTimes_def hoursBetween_le_24)
  have text_case: "calculateHoursFromTimes (JStr x) (JStr y)
                = (if e \<ge> s then (e - s) * 24 else (e - s) * 24 + 24)"
    if "parseTimeString x = s" "parseTimeString y = e"
  proof -
    have "x \<noteq> []" "y \<noteq> []"
      using that assms by (auto simp: parseTimeString_def)
    then show ?thesis
      unfolding calculateHoursFromTimes_def using that assms
      by (intro hoursBetween_fractions [where s = s and e = e])
         (auto simp: timeDecimal_def isMissing_def Let_def)
  qed
  have ex: "calculateHoursFromTimes (JStr ''22:00'') (JStr ''02:00'') = 4"
    by code_simp
  from num le text_case ex show ?thesis by blast
qed

theorem duration_calculator_witness:
  "calculateHoursFromTimes (JNum (3 / 4)) (JNum (1 / 4)) = 12
   \<and> calculateHoursFromTimes (JNum (1 / 4)) (JNum (3 / 4)) = 12
   \<and> calculateHoursFromTimes (JStr ''9:00 AM'') (JStr ''5:00 PM'') = 8"
proof -
  have p: "parseTimeString ''9:00 AM'' = 3 / 8" "parseTimeString ''5:00 PM'' = 17 / 24"
    by code_simp+
  show ?thesis
    using duration_calculator [of "3 / 4" "1 / 4"] duration_calculator [of "1 / 4" "3 / 4"]
      duration_calculator [of "3 / 8" "17 / 24" "''9:00 AM''" "''5:00 PM''"] p
    by simp
qed

text \<open>
  Claim C4. The claim is that a text accepted by the bare time pattern gives a fraction in
  \<open>[0, 1)\<close>, with an hour of 0 to 23 after the AM and PM normalization, and that a component
  out of range gives the invalid signal. The code checks the ranges before it adds 12 for PM:
  \<^verbatim>\<open>13:00 PM\<close> matches the pattern, passes the check with hour 13, becomes hour 25, and the
  value returned is \<open>25 / 24\<close>, which is not below 1, in both versions of the parser.
\<close>

theorem bare_time_pm_hour_over_12:
  "ampmMatch ''13:00 PM'' = Some (''13'', ''00'', None, Some ''PM'')
   \<and> parseTimeString ''13:00 PM'' = 25 / 24
   \<and> parseTimeString_plain ''13:00 PM'' = 25 / 24"
  by code_simp

text \<open>
  Apart from that case the claim holds: when the period is not PM, or the hour written is at
  most 12, an accepted text gives the invalid signal or a fraction in \<open>[0, 1)\<close>.
\<close>

lemma dayFraction_range:
  assumes "hh \<le> 23" and "mm \<le> 59" and "ss \<le> 59"
  shows "0 \<le> dayFraction hh mm ss \<and> dayFraction hh mm ss < 1"
proof -
  have "real hh \<le> 23" "real mm \<le> 59" "real ss \<le> 59"
    using assms by simp_all
  then show ?thesis
    by (simp add: dayFraction_def field_simps)
qed

lemma bare_time_in_range_unless_pm_over_12:
  assumes "ampmMatch str = Some (h, m, s, period)"
    and "period \<noteq> Some ''PM'' \<or> parseInt h \<le> 12"
  shows "parseBareTime str = - 1 \<or> (0 \<le> parseBareTime str \<and> parseBareTime str < 1)"
proof (cases "parseInt h > 23 \<or> parseInt m > 59 \<or> secondsOf s > 59")
  case True
  then show ?thesis
    using assms(1) by (simp add: parseBareTime_def)
next
  case False
  then have "normalizeHours period (parseInt h) \<le> 23"
    using assms(2) by (auto simp: normalizeHours_def)
  with False have "0 \<le> dayFraction (normalizeHours period (parseInt h)) (parseInt m) (secondsOf s)
        \<and> dayFraction (normalizeHours period (parseInt h)) (parseInt m) (secondsOf s) < 1"
    by (intro dayFraction_range) simp_all
  then show ?thesis
    using assms(1) False by (simp add: parseBareTime_def Let_def)
qed

section \<open>Properties of the Date Normalizer\<close>

text \<open>The calendar of the model at known dates, leap days included.\<close>

lemma civil_from_days_samples:
  "civil_from_days 0 = (1970, 1, 1)"
  "civil_from_days (- 1) = (1969, 12, 31)"
  "civil_from_days 11016 = (2000, 2, 29)"
  "civil_from_days 11017 = (2000, 3, 1)"
  "civil_from_days (- 25509) = (1900, 2, 28)"
  "civil_from_days (- 25508) = (1900, 3, 1)"
  "civil_from_days 19723 = (2024, 1, 1)"
  "civil_from_days 20088 = (2024, 12, 31)"
  by code_simp+





text \<open>
  The time zone of the server does not rescue the stated value: whatever the zone (an epoch
  less than a day away from midnight UTC), serial 1 gives 30 or 31 December 1899.
\<close>

lemma serial_one_any_zone:
  assumes "\<bar>excelEpoch h + 25569 * msPerDay\<bar> < msPerDay"
  shows "parseDate h (JNum 1) = Inr ''1899-12-30'' \<or> parseDate h (JNum 1) = Inr ''1899-12-31''"
proof -
  define t where "t = excelEpoch h + msPerDay"
  have r: "real_of_int (excelEpoch h) + 86400000 = real_of_int t"
    by (simp add: t_def msPerDay_def)
  have bounds: "- 25569 * msPerDay < t" "t < - 25567 * msPerDay"
    using assms by (simp_all add: t_def msPerDay_def)
  then have "\<bar>t\<bar> \<le> 8640000000000000"
    by (simp add: msPerDay_def)
  then have "\<bar>real_of_int t\<bar> \<le> 8640000000000000"
    by (metis of_int_abs of_int_le_numeral_iff)
  then have clip: "timeClip (real_of_int t) = Some t"
    by (simp add: timeClip_def)
  have lo: "(- 25569 * msPerDay) div msPerDay \<le> t div msPerDay"
    using bounds(1) by (intro zdiv_mono1) (simp_all add: msPerDay_def)
  have hi: "t div msPerDay \<le> (- 25567 * msPerDay - 1) div msPerDay"
    using bounds(2) by (intro zdiv_mono1) (simp_all add: msPerDay_def)
  have "- 25569 \<le> t div msPerDay" "t div msPerDay \<le> - 25568"
    using lo hi by (simp_all add: msPerDay_def)
  then have "t div msPerDay = - 25569 \<or> t div msPerDay = - 25568"
    by linarith
  moreover have "isoDay (- 25569) = ''1899-12-30''" "isoDay (- 25568) = ''1899-12-31''"
    by code_simp+
  ultimately show ?thesis
    by (auto simp: parseDate_def truthy_def r clip isoDate_def simp del: of_int_add)
qed

section \<open>Properties of the handlers\<close>

lemma collectRows_all:
  assumes "collectRows f rows = Inr ts"
    and "\<And>r t. f r = Inr (Some t) \<Longrightarrow> P t"
  shows "list_all P ts"
  using assms(1)
proof (induction rows arbitrary: ts)
  case Nil
  then show ?case by simp
next
  case (Cons r rs)
  then show ?case
    by (auto split: sum.splits option.splits intro: assms(2))
qed

lemma collectRows_none:
  "list_all (\<lambda>r. f r = Inr None) rows \<Longrightarrow> collectRows f rows = Inr []"
  by (induction rows) simp_all

lemma length_withIds: "length (withIds h ts) = length ts"
  by (simp add: withIds_def)

lemma hours_withIds: "map hours (withIds h ts) = map hours ts"
proof -
  have z: "map snd (zip [0 ..< length ts] ts) = ts"
    by (rule map_snd_zip) simp
  have "map hours (withIds h ts) = map (hours \<circ> snd) (zip [0 ..< length ts] ts)"
    by (simp add: withIds_def comp_def split_def)
  also have "\<dots> = map hours (map snd (zip [0 ..< length ts] ts))"
    by (simp only: map_map)
  also have "\<dots> = map hours ts"
    by (simp only: z)
  finally show ?thesis .
qed

lemma list_all_hours_withIds:
  "list_all (\<lambda>t. P (hours t)) (withIds h ts) = list_all (\<lambda>t. P (hours t)) ts"
proof -
  have "list_all (\<lambda>t. P (hours t)) xs = list_all P (map hours xs)" for xs :: "'a TradeRow_scheme list"
    by (simp add: list_all_iff)
  then show ?thesis
    by (metis hours_withIds) 
qed

lemma finish_Success:
  assumes "finish h msg r = Success ts m"
  shows "\<exists>rows. r = Inr rows \<and> rows \<noteq> [] \<and> ts = withIds h rows"
  using assms by (auto simp: finish_def Let_def split: sum.splits if_splits)


lemma finish_none: "finish h msg (Inr []) = Failure 400 msg"
  by (simp add: finish_def)


lemma uploadWith_Success:
  assumes "uploadWith h msg f u = Success ts m"
  shows "\<exists>rawData rows. u = Sheet rawData \<and> collectRows f rawData = Inr rows \<and> ts = withIds h rows"
  using assms by (cases u) (auto simp: uploadWith_def split: if_splits dest: finish_Success)

lemma round2_nonneg: "0 < x \<Longrightarrow> 0 \<le> round2 x"
  by (simp add: round2_def Math_round_def)

lemma round2_le_24: "x \<le> 24 \<Longrightarrow> round2 x \<le> 24"
proof -
  assume "x \<le> 24"
  then have "x * 100 + 1 / 2 < 2401" by simp
  then have "\<lfloor>x * 100 + 1 / 2\<rfloor> < 2401" by (simp add: floor_less_iff)
  then have "\<lfloor>x * 100 + 1 / 2\<rfloor> \<le> 2400" by simp
  then have "real_of_int \<lfloor>x * 100 + 1 / 2\<rfloor> \<le> 2400" by linarith
  then show ?thesis by (simp add: round2_def Math_round_def)
qed

lemma makeTrade_hours: "makeTrade h a b d x = Inr (Some t) \<Longrightarrow> hours t = x"
  by (auto simp: makeTrade_def split: sum.splits)

lemma pushRounded_hours:
  "pushRounded h a b d n = Inr (Some t) \<Longrightarrow> \<exists>x. n = Some x \<and> 0 < x \<and> hours t = round2 x"
  by (auto simp: pushRounded_def split: option.splits if_splits dest: makeTrade_hours)

lemma pasteFixedCells_hours:
  assumes "pasteFixedCells h cells = Inr (Some t)"
  shows "0 \<le> hours t \<and> hours t \<le> 24"
proof -
  from assms obtain a b where pos: "0 < calculateHoursFromTimes a b"
    and t: "hours t = round2 (calculateHoursFromTimes a b)"
    by (auto simp: pasteFixedCells_def Let_def split: if_splits dest: makeTrade_hours)
  have "calculateHoursFromTimes a b \<le> 24"
    by (simp add: calculateHoursFromTimes_def hoursBetween_le_24)
  with pos t show ?thesis
    by (simp add: round2_nonneg round2_le_24)
qed

lemma pasteFixedRow_hours:
  "pasteFixedRow h d l = Inr (Some t) \<Longrightarrow> 0 \<le> hours t \<and> hours t \<le> 24"
  by (auto simp: pasteFixedRow_def Let_def split: if_splits dest: pasteFixedCells_hours)

lemma uploadFixedRow_hours:
  assumes "uploadFixedRow h row = Inr (Some t)"
  shows "0 \<le> hours t \<and> hours t \<le> 24"
proof -
  from assms obtain a b where pos: "0 < calculateHoursFromTimes a b"
    and t: "hours t = round2 (calculateHoursFromTimes a b)"
    by (auto simp: uploadFixedRow_def Let_def split: if_splits dest: makeTrade_hours)
  have "calculateHoursFromTimes a b \<le> 24"
    by (simp add: calculateHoursFromTimes_def hoursBetween_le_24)
  with pos t show ?thesis
    by (simp add: round2_nonneg round2_le_24)
qed

lemma pasteFuzzyCells_hours:
  assumes "pasteFuzzyCells h i1 i2 i3 st en hr cells = Inr (Some t)"
  shows "0 \<le> hours t"
    and "truthy (cellOpt cells st) \<and> truthy (cellOpt cells en) \<Longrightarrow> hours t \<le> 24"
proof -
  from assms obtain x where x: "0 < x" "hours t = round2 x"
    and tm: "truthy (cellOpt cells st) \<and> truthy (cellOpt cells en) \<Longrightarrow>
               x = calculateHoursFromTimes_plain (cellOpt cells st) (cellOpt cells en)"
    by (auto simp: pasteFuzzyCells_def Let_def split: if_splits dest!: pushRounded_hours)
  show "0 \<le> hours t" using x by (simp add: round2_nonneg)
  show "hours t \<le> 24" if "truthy (cellOpt cells st) \<and> truthy (cellOpt cells en)"
    using tm [OF that] x
    by (simp add: round2_le_24 calculateHoursFromTimes_plain_def hoursBetween_le_24)
qed

lemma pasteFuzzyRow_hours:
  "pasteFuzzyRow h d i1 i2 i3 st en hr l = Inr (Some t) \<Longrightarrow> 0 \<le> hours t"
  by (auto simp: pasteFuzzyRow_def Let_def split: if_splits dest: pasteFuzzyCells_hours(1))

lemma uploadFuzzyRow_hours:
  assumes "uploadFuzzyRow h row = Inr (Some t)"
  shows "0 \<le> hours t"
    and "findColumnValue row startTimeNames \<noteq> JNull \<and> findColumnValue row endTimeNames \<noteq> JNull
           \<Longrightarrow> hours t \<le> 24"
proof -
  let ?s = "findColumnValue row startTimeNames" and ?e = "findColumnValue row endTimeNames"
  from assms obtain x where x: "0 < x" "hours t = round2 x"
    and tm: "?s \<noteq> JNull \<and> ?e \<noteq> JNull \<Longrightarrow> x = calculateHoursFromTimes_plain ?s ?e"
    by (auto simp: uploadFuzzyRow_def Let_def split: if_splits dest!: pushRounded_hours)
  show "0 \<le> hours t" using x by (simp add: round2_nonneg)
  show "hours t \<le> 24" if "?s \<noteq> JNull \<and> ?e \<noteq> JNull"
    using tm [OF that] x
    by (simp add: round2_le_24 calculateHoursFromTimes_plain_def hoursBetween_le_24)
qed

lemma uploadHoursRow_hours: "uploadHoursRow h row = Inr (Some t) \<Longrightarrow> 0 < hours t"
  by (auto simp: uploadHoursRow_def Let_def split: if_splits option.splits dest: makeTrade_hours)

lemma parsePaste_fixed_Success:
  assumes "parsePaste_fixed h b = Success ts m"
  shows "\<exists>d ls rows. collectRows (pasteFixedRow h d) ls = Inr rows \<and> ts = withIds h rows"
proof -
  from assms obtain fl ot
    where "finish h noValidRows_pasteFixed
             (collectRows (pasteFixedRow h (detectDelimiter fl)) (fl # ot)) = Success ts m"
    by (auto simp: parsePaste_fixed_def Let_def simp del: collectRows.simps
        split: jsval.splits if_splits list.splits)
  then show ?thesis
    by (blast dest: finish_Success)
qed

lemma parsePaste_fuzzy_Success:
  assumes "parsePaste_fuzzy h b = Success ts m"
  shows "\<exists>d i1 i2 i3 st en hr ls rows.
           collectRows (pasteFuzzyRow h d i1 i2 i3 st en hr) ls = Inr rows \<and> ts = withIds h rows"
proof -
  from assms obtain d fl ot where "pasteFuzzyLines h d fl ot = Success ts m"
    by (auto simp: parsePaste_fuzzy_def split: jsval.splits if_splits list.splits)
  then obtain j1 j2 j3 js je jh
    where "finish h noValidRows_pasteFuzzy
             (collectRows (pasteFuzzyRow h d j1 j2 j3 js je jh) ot) = Success ts m"
    unfolding pasteFuzzyLines_def Let_def
    by (auto split: option.splits)
  then show ?thesis
    by (blast dest: finish_Success)
qed

lemma clamp_at_24:
  assumes "timeDecimal parse a = Some s" and "timeDecimal parse b = Some e"
    and "\<not> isMissing a" and "\<not> isMissing b" and "(e - s) * 24 > 24"
  shows "hoursBetween parse a b = 24"
  using assms by (auto simp: hoursBetween_def Let_def)

text \<open>
  Claim C2, as amended. Every trade of a successful result carries the rounding to two
  decimals of a computed value that was strictly positive, so its hours are at least 0. Where
  the hours come from the duration calculator they are at most 24: always with fixed columns,
  and with fuzzy headers for a row whose start and end times are used; a raw difference above
  24 is clamped to 24. The direct Hours value is not clamped; in the first version of the
  upload handler it is not rounded either, and is then strictly positive.
\<close>

theorem trade_hours_bounds:
  "(parsePaste_fixed h b = Success ts m \<longrightarrow> list_all (\<lambda>t. 0 \<le> hours t \<and> hours t \<le> 24) ts)
   \<and> (upload_fixed h f = Success ts m \<longrightarrow> list_all (\<lambda>t. 0 \<le> hours t \<and> hours t \<le> 24) ts)
   \<and> (parsePaste_fuzzy h b = Success ts m \<longrightarrow> list_all (\<lambda>t. 0 \<le> hours t) ts)
   \<and> (upload_fuzzy h g = Success ts m \<longrightarrow> list_all (\<lambda>t. 0 \<le> hours t) ts)
   \<and> (upload_hours h g = Success ts m \<longrightarrow> list_all (\<lambda>t. 0 < hours t) ts)
   \<and> (uploadFuzzyRow h row = Inr (Some t) \<and> findColumnValue row startTimeNames \<noteq> JNull
        \<and> findColumnValue row endTimeNames \<noteq> JNull \<longrightarrow> hours t \<le> 24)
   \<and> (pasteFuzzyCells h i1 i2 i3 st en hr cells = Inr (Some t) \<and> truthy (cellOpt cells st)
        \<and> truthy (cellOpt cells en) \<longrightarrow> hours t \<le> 24)
   \<and> (timeDecimal parseTimeString x = Some s \<and> timeDecimal parseTimeString y = Some e
        \<and> (e - s) * 24 > 24 \<longrightarrow> calculateHoursFromTimes x y = 24)"
proof -
  have c1: "list_all (\<lambda>t. 0 \<le> hours t \<and> hours t \<le> 24) ts" if "parsePaste_fixed h b = Success ts m"
  proof -
    from parsePaste_fixed_Success [OF that] obtain d ls rows
      where r: "collectRows (pasteFixedRow h d) ls = Inr rows" and ts: "ts = withIds h rows"
      by blast
    have "list_all (\<lambda>t. 0 \<le> hours t \<and> hours t \<le> 24) rows"
      by (rule collectRows_all [OF r]) (rule pasteFixedRow_hours)
    then show ?thesis
      unfolding ts by (simp add: list_all_hours_withIds [where P = "\<lambda>x. 0 \<le> x \<and> x \<le> 24"])
  qed
  have c2: "list_all (\<lambda>t. 0 \<le> hours t \<and> hours t \<le> 24) ts" if "upload_fixed h f = Success ts m"
  proof -
    from that obtain rawData rows
      where r: "collectRows (uploadFixedRow h) rawData = Inr rows" and ts: "ts = withIds h rows"
      unfolding upload_fixed_def by (blast dest: uploadWith_Success)
    have "list_all (\<lambda>t. 0 \<le> hours t \<and> hours t \<le> 24) rows"
      by (rule collectRows_all [OF r]) (rule uploadFixedRow_hours)
    then show ?thesis
      unfolding ts by (simp add: list_all_hours_withIds [where P = "\<lambda>x. 0 \<le> x \<and> x \<le> 24"])
  qed
  have c3: "list_all (\<lambda>t. 0 \<le> hours t) ts" if "parsePaste_fuzzy h b = Success ts m"
  proof -
    from parsePaste_fuzzy_Success [OF that] obtain d j1 j2 j3 js je jh ls rows
      where r: "collectRows (pasteFuzzyRow h d j1 j2 j3 js je jh) ls = Inr rows"
        and ts: "ts = withIds h rows"
      by blast
    have "list_all (\<lambda>t. 0 \<le> hours t) rows"
      by (rule collectRows_all [OF r]) (rule pasteFuzzyRow_hours)
    then show ?thesis
      unfolding ts by (simp add: list_all_hours_withIds [where P = "\<lambda>x. 0 \<le> x"])
  qed
  have c4: "list_all (\<lambda>t. 0 \<le> hours t) ts" if "upload_fuzzy h g = Success ts m"
  proof -
    from that obtain rawData rows
      where r: "collectRows (uploadFuzzyRow h) rawData = Inr rows" and ts: "ts = withIds h rows"
      unfolding upload_fuzzy_def by (blast dest: uploadWith_Success)
    have "list_all (\<lambda>t. 0 \<le> hours t) rows"
      by (rule collectRows_all [OF r]) (rule uploadFuzzyRow_hours(1))
    then show ?thesis
      unfolding ts by (simp add: list_all_hours_withIds [where P = "\<lambda>x. 0 \<le> x"])
  qed
  have c5: "list_all (\<lambda>t. 0 < hours t) ts" if "upload_hours h g = Success ts m"
  proof -
    from that obtain rawData rows
      where r: "collectRows (uploadHoursRow h) rawData = Inr rows" and ts: "ts = withIds h rows"
      unfolding upload_hours_def by (blast dest: uploadWith_Success)
    have "list_all (\<lambda>t. 0 < hours t) rows"
      by (rule collectRows_all [OF r]) (rule uploadHoursRow_hours)
    then show ?thesis
      unfolding ts by (simp add: list_all_hours_withIds [where P = "\<lambda>x. 0 < x"])
  qed
  have c6: "hours t \<le> 24"
    if "uploadFuzzyRow h row = Inr (Some t) \<and> findColumnValue row startTimeNames \<noteq> JNull
        \<and> findColumnValue row endTimeNames \<noteq> JNull"
    using that uploadFuzzyRow_hours(2) by blast
  have c7: "hours t \<le> 24"
    if "pasteFuzzyCells h i1 i2 i3 st en hr cells = Inr (Some t) \<and> truthy (cellOpt cells st)
        \<and> truthy (cellOpt cells en)"
    using that pasteFuzzyCells_hours(2) by blast
  have c8: "calculateHoursFromTimes x y = 24"
    if "timeDecimal parseTimeString x = Some s \<and> timeDecimal parseTimeString y = Some e
        \<and> (e - s) * 24 > 24"
  proof -
    have "\<not> isMissing x" "\<not> isMissing y"
      using that by (auto simp: isMissing_def timeDecimal_def parseTimeString_def)
    then show ?thesis
      unfolding calculateHoursFromTimes_def using that by (intro clamp_at_24) auto
  qed
  from c1 c2 c3 c4 c5 c6 c7 c8 show ?thesis by blast
qed

text \<open>
  Claim C2 as stated fails on the direct Hours column of the fuzzy header mode: 25 hours are
  stored as 25, and 0.001 hours pass the check and are stored as 0.
\<close>

theorem direct_hours_unclamped_and_rounded_to_zero:
  "parsePaste_fuzzy utc_host (JStr hoursText) =
     Success [\<lparr> person1 = ''ALICE'', date = ''2024-01-02'', hours = 25, person2 = ''BOB'',
                 trade_id = ''id-0'' \<rparr>,
              \<lparr> person1 = ''CAROL'', date = ''2024-01-02'', hours = 0, person2 = ''DAVE'',
                 trade_id = ''id-1'' \<rparr>]
             ''Successfully loaded 2 trades''"
  by code_simp

theorem trade_hours_bounds_witness:
  "parsePaste_fixed utc_host (JStr timesText) = Success [aliceBobTrade utc_host] loadedOne
   \<and> upload_fixed utc_host (Sheet [gridRow]) = Success [aliceBobTrade utc_host] loadedOne
   \<and> parsePaste_fuzzy utc_host (JStr timesText) = Success [aliceBobTrade utc_host] loadedOne
   \<and> upload_fuzzy utc_host hoursSheet = Success [aliceBobTrade utc_host] loadedOne
   \<and> upload_hours utc_host hoursSheet = Success [aliceBobTrade utc_host] loadedOne
   \<and> uploadFuzzyRow utc_host timesRow = Inr (Some aliceBob)
   \<and> pasteFuzzyCells utc_host 0 4 1 (Some 2) (Some 3) None timesCells = Inr (Some aliceBob)
   \<and> list_all (\<lambda>t. 0 < hours t \<and> hours t \<le> 24) [aliceBobTrade utc_host]
   \<and> hours aliceBob \<le> 24
   \<and> calculateHoursFromTimes (JStr ''0:00'') (JStr ''23:00 PM'') = 24"
proof -
  have a: "parsePaste_fixed utc_host (JStr timesText) = Success [aliceBobTrade utc_host] loadedOne"
    by code_simp
  have b: "upload_fixed utc_host (Sheet [gridRow]) = Success [aliceBobTrade utc_host] loadedOne"
    by code_simp
  have c: "parsePaste_fuzzy utc_host (JStr timesText) = Success [aliceBobTrade utc_host] loadedOne"
    by code_simp
  have d: "upload_fuzzy utc_host hoursSheet = Success [aliceBobTrade utc_host] loadedOne"
    by code_simp
  have e: "upload_hours utc_host hoursSheet = Success [aliceBobTrade utc_host] loadedOne"
    by code_simp
  have f: "uploadFuzzyRow utc_host timesRow = Inr (Some aliceBob)"
    "findColumnValue timesRow startTimeNames \<noteq> JNull" "findColumnValue timesRow endTimeNames \<noteq> JNull"
    by code_simp+
  have g: "pasteFuzzyCells utc_host 0 4 1 (Some 2) (Some 3) None timesCells = Inr (Some aliceBob)"
    "truthy (cellOpt timesCells (Some 2))" "truthy (cellOpt timesCells (Some 3))"
    by code_simp+
  have k: "timeDecimal parseTimeString (JStr ''0:00'') = Some 0"
    "timeDecimal parseTimeString (JStr ''23:00 PM'') = Some (35 / 24)"
    by code_simp+
  show ?thesis
    using a b c d e f g k
      trade_hours_bounds [of utc_host "JStr timesText" "[aliceBobTrade utc_host]" loadedOne
        "Sheet [gridRow]" hoursSheet timesRow aliceBob 0 4 1 "Some 2" "Some 3" None timesCells
        "JStr ''0:00''" 0 "JStr ''23:00 PM''" "35 / 24"]
    by simp
qed

subsection \<open>Scenario A\<close>

lemma withIds_single:
  "withIds h [t] = [\<lparr> person1 = person1 t, date = date t, hours = hours t, person2 = person2 t,
                       trade_id = randomUUID h 0 \<rparr>]"
  by (simp add: withIds_def)

lemma finish_single:
  "finish h msg (Inr [t]) =
     Success [\<lparr> person1 = person1 t, date = date t, hours = hours t, person2 = person2 t,
                 trade_id = randomUUID h 0 \<rparr>] loadedOne"
proof -
  have "show_nat (Suc 0) = ''1''" by code_simp
  then show ?thesis
    by (simp add: finish_def withIds_single loadedOne_def Let_def)
qed

lemma isoDate_2024_01_02: "isoDate 1704153600000 = ''2024-01-02''"
  by code_simp

lemma parseDate_1_2_2024:
  "dateParse h ''1/2/2024'' = Some 1704153600000 \<Longrightarrow> parseDate h (JStr ''1/2/2024'') = Inr ''2024-01-02''"
  by (simp add: parseDate_def truthy_def isoDate_2024_01_02)

lemma makeTrade_aliceBob:
  assumes "dateParse h ''1/2/2024'' = Some 1704153600000"
  shows "makeTrade h (JStr ''ALICE'') (JStr ''BOB'') (JStr ''1/2/2024'') 8 = Inr (Some aliceBob)"
proof -
  have "toUpperCase (trim ''ALICE'') = ''ALICE''" "toUpperCase (trim ''BOB'') = ''BOB''"
    by code_simp+
  then show ?thesis
    by (simp add: makeTrade_def parseDate_1_2_2024 [OF assms] js_String_def aliceBob_def)
qed

lemma summary_aliceBob:
  "summaryData [aliceBobTrade h] =
     [\<lparr> name = ''ALICE'', youWorked = 8, theyWorked = 0, total_net = 8 \<rparr>,
      \<lparr> name = ''BOB'', youWorked = 0, theyWorked = 8, total_net = - 8 \<rparr>]"
proof -
  have n: "uniqueNames [aliceBobTrade h] = [''ALICE'', ''BOB'']"
    by (simp add: uniqueNames_def aliceBobTrade_def addName_def)
  have m: "tally [(''ALICE'', 0, 0), (''BOB'', 0, 0)] (aliceBobTrade h)
             = [(''ALICE'', 8, 0), (''BOB'', 0, 8)]"
    by (simp add: tally_def addYouWorked_def addTheyWorked_def aliceBobTrade_def)
  show ?thesis
    unfolding summaryData_def n by (simp add: m toSummary_def)
qed

text \<open>
  Claim C6, as amended. In fixed-index mode a single row with \<^verbatim>\<open>ALICE\<close> at index 4,
  \<^verbatim>\<open>1/2/2024\<close> at index 5, \<^verbatim>\<open>9:00 AM\<close> at index 6, \<^verbatim>\<open>5:00 PM\<close> at index 7 and \<^verbatim>\<open>BOB\<close> at
  index 10, on a host that reads \<^verbatim>\<open>1/2/2024\<close> as midnight UTC of 2 January 2024, produces
  exactly one trade (Alice, 2024-01-02, 8 hours, Bob), and the aggregation gives Alice 8, 0
  and total 8, and Bob 0, 8 and total -8.
\<close>

theorem scenario_A_at_fixed_positions:
  assumes "dateParse h ''1/2/2024'' = Some 1704153600000"
    and "rowAt row PERSON1_COL = JStr ''ALICE''"
    and "rowAt row DATE_COL = JStr ''1/2/2024''"
    and "rowAt row START_TIME_COL = JStr ''9:00 AM''"
    and "rowAt row END_TIME_COL = JStr ''5:00 PM''"
    and "rowAt row PERSON2_COL = JStr ''BOB''"
  shows "upload_fixed h (Sheet [row]) = Success [aliceBobTrade h] loadedOne
         \<and> summaryData [aliceBobTrade h] =
             [\<lparr> name = ''ALICE'', youWorked = 8, theyWorked = 0, total_net = 8 \<rparr>,
              \<lparr> name = ''BOB'', youWorked = 0, theyWorked = 8, total_net = - 8 \<rparr>]"
proof -
  have len: "length row \<noteq> 0"
    using assms(2) by (auto simp: rowAt_def)
  have hd: "\<not> isHeaderText (trim ''1/2/2024'')"
    by code_simp
  have hrs: "calculateHoursFromTimes (JStr ''9:00 AM'') (JStr ''5:00 PM'') = 8"
    by code_simp
  have r8: "round2 8 = 8"
    by (simp add: round2_def Math_round_def)
  have "uploadFixedRow h row = Inr (Some aliceBob)"
    using len hd by (simp add: uploadFixedRow_def assms(2-6) truthy_def hrs r8
        makeTrade_aliceBob [OF assms(1)])
  then have "upload_fixed h (Sheet [row]) = Success [aliceBobTrade h] loadedOne"
    by (simp add: upload_fixed_def uploadWith_def finish_single aliceBob_def aliceBobTrade_def)
  then show ?thesis
    by (simp add: summary_aliceBob)
qed

text \<open>
  Claim C6 as stated fails: the row of five cells has \<^verbatim>\<open>BOB\<close> at index 4 and nothing at
  indices 5 to 10, so no trade is produced and the batch fails.
\<close>

theorem five_cell_row_rejected:
  "upload_fixed utc_host (Sheet [fiveCellRow]) = Failure 400 noValidRows_uploadFixed"
  by code_simp

theorem scenario_A_witness:
  "upload_fixed utc_host (Sheet [gridRow]) = Success [aliceBobTrade utc_host] loadedOne
   \<and> map name (summaryData [aliceBobTrade utc_host]) = [''ALICE'', ''BOB'']
   \<and> map total_net (summaryData [aliceBobTrade utc_host]) = [8, - 8]"
proof -
  have "dateParse utc_host ''1/2/2024'' = Some 1704153600000"
    by (simp add: utc_host_def)
  moreover have "rowAt gridRow PERSON1_COL = JStr ''ALICE''" "rowAt gridRow DATE_COL = JStr ''1/2/2024''"
    "rowAt gridRow START_TIME_COL = JStr ''9:00 AM''" "rowAt gridRow END_TIME_COL = JStr ''5:00 PM''"
    "rowAt gridRow PERSON2_COL = JStr ''BOB''"
    by code_simp+
  ultimately show ?thesis
    using scenario_A_at_fixed_positions [of utc_host gridRow] by simp
qed

subsection \<open>The Hours column in the workbook upload\<close>

lemma hoursBetween_missing: "isMissing a \<or> isMissing b \<Longrightarrow> hoursBetween parse a b = 0"
  by (simp add: hoursBetween_def)

lemma pushRounded_zero: "pushRounded h a b d (Some 0) = Inr None"
  by (simp add: pushRounded_def)

text \<open>
  Claim C9. In the fuzzy header mode of the workbook upload, when a start-time column and an
  end-time column are both resolved the row is computed from them alone, whatever the Hours
  cell holds; a row whose start and end cells are empty strings gives no trade, and a sheet of
  such rows fails with the no-valid-rows message.
\<close>

theorem hours_column_not_consulted:
  "(findColumnValue row startTimeNames \<noteq> JNull \<and> findColumnValue row endTimeNames \<noteq> JNull \<longrightarrow>
      uploadFuzzyRow h row =
        (if truthy (findColumnValue row person1Names) \<and> truthy (findColumnValue row person2Names)
            \<and> truthy (findColumnValue row dateNames)
         then pushRounded h (findColumnValue row person1Names) (findColumnValue row person2Names)
                (findColumnValue row dateNames)
                (Some (calculateHoursFromTimes_plain (findColumnValue row startTimeNames)
                         (findColumnValue row endTimeNames)))
         else Inr None))
   \<and> (findColumnValue row startTimeNames = JStr [] \<and> findColumnValue row endTimeNames = JStr [] \<longrightarrow>
        uploadFuzzyRow h row = Inr None)
   \<and> (rows \<noteq> []
        \<and> list_all (\<lambda>r. findColumnValue r startTimeNames = JStr []
                          \<and> findColumnValue r endTimeNames = JStr []) rows \<longrightarrow>
        upload_fuzzy h (Sheet rows) = Failure 400 noValidRows_uploadFuzzy)"
proof -
  have one: "uploadFuzzyRow h r = Inr None"
    if "findColumnValue r startTimeNames = JStr []" "findColumnValue r endTimeNames = JStr []" for r
    using that
    by (simp add: uploadFuzzyRow_def Let_def calculateHoursFromTimes_plain_def
        hoursBetween_missing isMissing_def pushRounded_zero)
  have batch: "upload_fuzzy h (Sheet rows) = Failure 400 noValidRows_uploadFuzzy"
    if "rows \<noteq> []"
      and "list_all (\<lambda>r. findColumnValue r startTimeNames = JStr []
                          \<and> findColumnValue r endTimeNames = JStr []) rows"
  proof -
    have "list_all (\<lambda>r. uploadFuzzyRow h r = Inr None) rows"
      using that(2) by (simp add: list_all_iff one)
    then have "collectRows (uploadFuzzyRow h) rows = Inr []"
      by (rule collectRows_none)
    then show ?thesis
      using that(1) by (simp add: upload_fuzzy_def uploadWith_def finish_none)
  qed
  have direct: "uploadFuzzyRow h row =
        (if truthy (findColumnValue row person1Names) \<and> truthy (findColumnValue row person2Names)
            \<and> truthy (findColumnValue row dateNames)
         then pushRounded h (findColumnValue row person1Names) (findColumnValue row person2Names)
                (findColumnValue row dateNames)
                (Some (calculateHoursFromTimes_plain (findColumnValue row startTimeNames)
                         (findColumnValue row endTimeNames)))
         else Inr None)"
    if "findColumnValue row startTimeNames \<noteq> JNull \<and> findColumnValue row endTimeNames \<noteq> JNull"
    using that by (simp add: uploadFuzzyRow_def Let_def)
  from direct one batch show ?thesis
    by blast
qed

theorem hours_column_not_consulted_witness:
  "findColumnValue blankTimesRow hoursNames = JNum 5
   \<and> uploadFuzzyRow utc_host blankTimesRow = Inr None
   \<and> upload_fuzzy utc_host (Sheet [blankTimesRow]) = Failure 400 noValidRows_uploadFuzzy
   \<and> uploadFuzzyRow utc_host timesRow = Inr (Some aliceBob)"
proof -
  have a: "findColumnValue blankTimesRow startTimeNames = JStr []"
    "findColumnValue blankTimesRow endTimeNames = JStr []"
    "findColumnValue blankTimesRow hoursNames = JNum 5"
    by code_simp+
  have b: "findColumnValue timesRow startTimeNames \<noteq> JNull"
    "findColumnValue timesRow endTimeNames \<noteq> JNull"
    by code_simp+
  have c: "(if truthy (findColumnValue timesRow person1Names) \<and> truthy (findColumnValue timesRow person2Names)
            \<and> truthy (findColumnValue timesRow dateNames)
         then pushRounded utc_host (findColumnValue timesRow person1Names) (findColumnValue timesRow person2Names)
                (findColumnValue timesRow dateNames)
                (Some (calculateHoursFromTimes_plain (findColumnValue timesRow startTimeNames)
                         (findColumnValue timesRow endTimeNames)))
         else Inr None) = Inr (Some aliceBob)"
    by code_simp
  note blank = hours_column_not_consulted [of blankTimesRow utc_host "[blankTimesRow]"]
  note timed = hours_column_not_consulted [of timesRow utc_host "[blankTimesRow]"]
  have r1: "uploadFuzzyRow utc_host blankTimesRow = Inr None"
    using blank a by blast
  have r2: "upload_fuzzy utc_host (Sheet [blankTimesRow]) = Failure 400 noValidRows_uploadFuzzy"
    using blank a by simp
  have r3: "uploadFuzzyRow utc_host timesRow = Inr (Some aliceBob)"
    using timed b c by simp
  from a(3) r1 r2 r3 show ?thesis
    by blast
qed

subsection \<open>All or nothing\<close>







subsection \<open>The delimiter of pasted text\<close>












end
